theory Spec2Isabelle
  imports Complex_Main "HOL-Library.Char_ord" "HOL-Library.List_Lexorder"
begin

section \<open>FinishLine: the GPS path viewer of \<^verbatim>\<open>src/main.py\<close>\<close>

text \<open>
  The script loads a GPX track, filters its points by time of day, rotates them about the
  midpoint of their bounding box and plots them inside zoomed axis limits.

  Conventions of the embedding:
  \<^item> Python floats are modelled as \<^typ>\<open>real\<close>: every statement below is about exact
    arithmetic, rounding is not modelled.
  \<^item> Python strings are \<^typ>\<open>string\<close>; \<open>\<le>\<close> on them is the lexicographic order of
    the characters' code points, which is how Python compares \<^verbatim>\<open>str\<close> values
    (restricted here to 8-bit characters).
  \<^item> An exception is a value \<open>Inl e\<close> of a sum type; printing and showing a figure
    are recorded as values of \<open>effect\<close>.
\<close>

subsection \<open>Data\<close>

datatype exn = ValueError | ZeroDivisionError | FileNotFoundError | GPXException

text \<open>The fields of \<^verbatim>\<open>datetime.datetime\<close> that a track point's time carries.\<close>

record datetime =
  year :: nat
  month :: nat
  day :: nat
  hour :: nat
  minute :: nat
  second :: nat

type_synonym coordinate = "real \<times> real"

type_synonym sample = "real \<times> real \<times> datetime"

text \<open>The object tree that \<^verbatim>\<open>gpxpy.parse\<close> returns: tracks, segments, points.\<close>

record point =
  latitude :: real
  longitude :: real
  time :: "datetime option"

record segment =
  points :: "point list"

record track =
  segments :: "segment list"

record gpx =
  tracks :: "track list"

text \<open>
  What \<^verbatim>\<open>plot_path\<close> hands to matplotlib: the two sequences given to
  \<^verbatim>\<open>plt.plot\<close>, the limits given to \<^verbatim>\<open>plt.xlim\<close> and \<^verbatim>\<open>plt.ylim\<close>, and the two
  numbers formatted into the title.
\<close>

record figure =
  path_x :: "real list"
  path_y :: "real list"
  xlim :: "real \<times> real"
  ylim :: "real \<times> real"
  title_zoom :: real
  title_rotation :: real

datatype effect = Print string | Show_figure figure

subsection \<open>\<^verbatim>\<open>parse_gpx\<close>\<close>

text \<open>
  \<^verbatim>\<open>open\<close> and \<^verbatim>\<open>gpxpy.parse\<close> are outside the repository. The file system is a map
  from paths to contents (\<^verbatim>\<open>open\<close> raises \<^verbatim>\<open>FileNotFoundError\<close> on a missing path) and
  the library parser is a parameter \<open>parse\<close> that returns the object tree or raises.
  The three nested loops append to \<^verbatim>\<open>data\<close>; \<^verbatim>\<open>if point.time\<close> is the test for
  \<^verbatim>\<open>None\<close>, a \<^verbatim>\<open>datetime\<close> being always truthy.
\<close>

definition flatten_points :: "point list \<Rightarrow> sample list \<Rightarrow> sample list" where
  "flatten_points ps data =
     fold (\<lambda>p data. case time p of
                       Some t \<Rightarrow> data @ [(latitude p, longitude p, t)]
                     | None \<Rightarrow> data) ps data"

definition flatten_segments :: "segment list \<Rightarrow> sample list \<Rightarrow> sample list" where
  "flatten_segments ss data = fold (\<lambda>s data. flatten_points (points s) data) ss data"

definition flatten_tracks :: "track list \<Rightarrow> sample list \<Rightarrow> sample list" where
  "flatten_tracks ts data = fold (\<lambda>t data. flatten_segments (segments t) data) ts data"

definition parse_gpx ::
  "(string \<rightharpoonup> string) \<Rightarrow> (string \<Rightarrow> exn + gpx) \<Rightarrow> string \<Rightarrow> exn + sample list" where
  "parse_gpx fs parse file_path =
     (case fs file_path of
        None \<Rightarrow> Inl FileNotFoundError
      | Some gpx_file \<Rightarrow>
          (case parse gpx_file of
             Inl e \<Rightarrow> Inl e
           | Inr g \<Rightarrow> Inr (flatten_tracks (tracks g) [])))"

subsection \<open>\<^verbatim>\<open>rotate_coordinates\<close>\<close>

definition radians :: "real \<Rightarrow> real" where
  "radians angle = angle * pi / 180"

definition rotate_coordinates :: "coordinate list \<Rightarrow> real \<Rightarrow> coordinate \<Rightarrow> coordinate list" where
  "rotate_coordinates coordinates angle center =
     (let angle_rad = radians angle;
          cos_theta = cos angle_rad;
          sin_theta = sin angle_rad;
          (center_lat, center_lon) = center
      in fold (\<lambda>(lat, lon) rotated.
                 let lat_shifted = lat - center_lat;
                     lon_shifted = lon - center_lon;
                     lat_rotated = lat_shifted * cos_theta - lon_shifted * sin_theta;
                     lon_rotated = lat_shifted * sin_theta + lon_shifted * cos_theta;
                     lat_final = lat_rotated + center_lat;
                     lon_final = lon_rotated + center_lon
                 in rotated @ [(lat_final, lon_final)])
              coordinates [])"

subsection \<open>\<^verbatim>\<open>filter_coordinates_by_time\<close>\<close>

text \<open>\<^verbatim>\<open>time.strftime("%H:%M")\<close>: hour and minute, each as two decimal digits.\<close>

definition digit :: "nat \<Rightarrow> char" where
  "digit n = char_of (48 + n)"

definition two_digits :: "nat \<Rightarrow> string" where
  "two_digits n = [digit (n div 10), digit (n mod 10)]"

definition strftime_HM :: "datetime \<Rightarrow> string" where
  "strftime_HM t = two_digits (hour t) @ '':'' @ two_digits (minute t)"

definition filter_coordinates_by_time :: "sample list \<Rightarrow> string \<Rightarrow> string \<Rightarrow> coordinate list" where
  "filter_coordinates_by_time data start_time end_time =
     fold (\<lambda>(lat, lon, time) filtered.
             let time_str = strftime_HM time
             in if start_time \<le> time_str \<and> time_str \<le> end_time
                then filtered @ [(lat, lon)]
                else filtered)
          data []"

subsection \<open>\<^verbatim>\<open>plot_path\<close>\<close>

text \<open>
  The builtins \<^verbatim>\<open>max\<close> and \<^verbatim>\<open>min\<close> raise \<^verbatim>\<open>ValueError\<close> on an empty sequence and
  \<^verbatim>\<open>/\<close> raises \<^verbatim>\<open>ZeroDivisionError\<close> on a zero divisor. \<open>and_then\<close> sequences two
  computations, the first exception ending the run.
\<close>

fun max_of :: "real list \<Rightarrow> exn + real" where
  "max_of [] = Inl ValueError"
| "max_of (x # xs) = Inr (fold max xs x)"

fun min_of :: "real list \<Rightarrow> exn + real" where
  "min_of [] = Inl ValueError"
| "min_of (x # xs) = Inr (fold min xs x)"

definition true_div :: "real \<Rightarrow> real \<Rightarrow> exn + real" where
  "true_div a b = (if b = 0 then Inl ZeroDivisionError else Inr (a / b))"

definition and_then :: "exn + 'a \<Rightarrow> ('a \<Rightarrow> exn + 'b) \<Rightarrow> exn + 'b" where
  "and_then r f = (case r of Inl e \<Rightarrow> Inl e | Inr v \<Rightarrow> f v)"

text \<open>Lines 91 to 95: the center of the path, from \<^verbatim>\<open>zip(*coordinates)\<close>.\<close>

definition path_center :: "coordinate list \<Rightarrow> exn + coordinate" where
  "path_center coordinates =
     (let latitudes = map fst coordinates;
          longitudes = map snd coordinates
      in and_then (max_of latitudes) (\<lambda>max_latitudes.
         and_then (min_of latitudes) (\<lambda>min_latitudes.
         and_then (max_of longitudes) (\<lambda>max_longitudes.
         and_then (min_of longitudes) (\<lambda>min_longitudes.
           Inr ((max_latitudes + min_latitudes) / 2,
                (max_longitudes + min_longitudes) / 2))))))"

text \<open>
  Lines 100 to 106: the zoomed bounds, returned as
  \<open>((min_lat, max_lat), (min_lon, max_lon))\<close>.
\<close>

definition zoomed_bounds ::
  "coordinate list \<Rightarrow> coordinate \<Rightarrow> real \<Rightarrow> exn + ((real \<times> real) \<times> (real \<times> real))" where
  "zoomed_bounds rotated_coordinates center zoom =
     (let (center_lat, center_lon) = center;
          rotated_latitudes = map fst rotated_coordinates;
          rotated_longitudes = map snd rotated_coordinates
      in and_then (max_of rotated_latitudes) (\<lambda>max_rlat.
         and_then (min_of rotated_latitudes) (\<lambda>min_rlat.
         and_then (true_div (max_rlat - min_rlat) zoom) (\<lambda>range_lat.
         and_then (max_of rotated_longitudes) (\<lambda>max_rlon.
         and_then (min_of rotated_longitudes) (\<lambda>min_rlon.
         and_then (true_div (max_rlon - min_rlon) zoom) (\<lambda>range_lon.
           Inr ((center_lat - range_lat / 2, center_lat + range_lat / 2),
                (center_lon - range_lon / 2, center_lon + range_lon / 2)))))))))"

text \<open>
  \<^verbatim>\<open>plot_path\<close> either prints and returns, or shows one figure, or raises. The figure
  is plotted with the rotated longitudes as x and the rotated latitudes as y.
\<close>

definition plot_path :: "coordinate list \<Rightarrow> real \<Rightarrow> real \<Rightarrow> exn + effect" where
  "plot_path coordinates zoom rotation =
     (if coordinates = [] then Inr (Print ''No coordinates to plot.'')
      else
        and_then (path_center coordinates) (\<lambda>center.
        let rotated_coordinates = rotate_coordinates coordinates rotation center
        in and_then (zoomed_bounds rotated_coordinates center zoom)
             (\<lambda>((min_lat, max_lat), (min_lon, max_lon)).
                Inr (Show_figure
                      \<lparr>path_x = map snd rotated_coordinates,
                       path_y = map fst rotated_coordinates,
                       xlim = (min_lon, max_lon),
                       ylim = (min_lat, max_lat),
                       title_zoom = zoom,
                       title_rotation = rotation\<rparr>))))"

subsection \<open>\<^verbatim>\<open>update_plot\<close>\<close>

text \<open>
  The callback of the button. Its state is the closure variable
  \<^verbatim>\<open>filtered_coordinates\<close> together with everything printed and shown so far; the four
  control values are arguments. The call of \<^verbatim>\<open>filter_coordinates_by_time\<close> sits in a
  \<^verbatim>\<open>try\<close> whose handler catches \<^verbatim>\<open>ValueError\<close>, prints and keeps the old
  \<^verbatim>\<open>filtered_coordinates\<close>; the function itself contains no operation that raises, so
  its result enters the \<^verbatim>\<open>try\<close> as \<open>Inr\<close>. \<^verbatim>\<open>plot_path\<close> is called after the
  \<^verbatim>\<open>try\<close> in either case.
\<close>

record shell =
  filtered_coordinates :: "coordinate list"
  trace :: "effect list"

definition update_plot ::
  "sample list \<Rightarrow> real \<Rightarrow> real \<Rightarrow> string \<Rightarrow> string \<Rightarrow> shell \<Rightarrow> exn + shell" where
  "update_plot data zoom_value rotation_value start_time end_time st =
     and_then
       (case (Inr (filter_coordinates_by_time data start_time end_time) :: exn + coordinate list) of
          Inr filtered \<Rightarrow> Inr (st\<lparr>filtered_coordinates := filtered\<rparr>)
        | Inl e \<Rightarrow>
            if e = ValueError
            then Inr (st\<lparr>trace := trace st @ [Print ''Invalid time format. Use HH:MM.'']\<rparr>)
            else Inl e)
       (\<lambda>st1.
          and_then (plot_path (filtered_coordinates st1) zoom_value rotation_value)
            (\<lambda>eff. Inr (st1\<lparr>trace := trace st1 @ [eff]\<rparr>)))"

text \<open>The figures shown so far, oldest first; the last one is the view on screen.\<close>

definition shown_figures :: "effect list \<Rightarrow> figure list" where
  "shown_figures tr = concat (map (\<lambda>eff. case eff of Show_figure f \<Rightarrow> [f] | Print _ \<Rightarrow> []) tr)"

section \<open>The loops as list functions\<close>

text \<open>
  Each loop of the script appends to an accumulator; with the accumulator generalised it is
  a map, a filter or a concatenation of its input.
\<close>

lemma and_then_Inr [simp]: "and_then (Inr v) f = f v"
  by (simp add: and_then_def)

lemma and_then_Inl [simp]: "and_then (Inl e) f = Inl e"
  by (simp add: and_then_def)

lemma max_of_Max: "xs \<noteq> [] \<Longrightarrow> max_of xs = Inr (Max (set xs))"
proof (cases xs)
  case (Cons a list)
  then show ?thesis using Max.set_eq_fold [of a list] by simp
qed simp

lemma min_of_Min: "xs \<noteq> [] \<Longrightarrow> min_of xs = Inr (Min (set xs))"
proof (cases xs)
  case (Cons a list)
  then show ?thesis using Min.set_eq_fold [of a list] by simp
qed simp

lemma filter_loop:
  "fold (\<lambda>(lat, lon, time) filtered.
             if start_time \<le> strftime_HM time \<and> strftime_HM time \<le> end_time
             then filtered @ [(lat, lon)]
             else filtered) data acc =
   acc @ map (\<lambda>(lat, lon, t). (lat, lon))
       (filter (\<lambda>(lat, lon, t). start_time \<le> strftime_HM t \<and> strftime_HM t \<le> end_time) data)"
proof (induction data arbitrary: acc)
  case Nil
  show ?case by simp
next
  case (Cons x xs)
  obtain lat lon t where x: "x = (lat, lon, t)" by (cases x)
  show ?case by (simp add: Cons.IH x)
qed

lemma filter_coordinates_by_time_eq:
  "filter_coordinates_by_time data start_time end_time =
     map (\<lambda>(lat, lon, t). (lat, lon))
       (filter (\<lambda>(lat, lon, t). start_time \<le> strftime_HM t \<and> strftime_HM t \<le> end_time) data)"
  by (simp add: filter_coordinates_by_time_def Let_def filter_loop)

lemma rotate_loop:
  "fold (\<lambda>(lat, lon) rotated.
           rotated @ [((lat - center_lat) * c - (lon - center_lon) * s + center_lat,
                       (lat - center_lat) * s + (lon - center_lon) * c + center_lon)])
        coordinates acc =
   acc @ map (\<lambda>(lat, lon).
            ((lat - center_lat) * c - (lon - center_lon) * s + center_lat,
             (lat - center_lat) * s + (lon - center_lon) * c + center_lon))
         coordinates"
proof (induction coordinates arbitrary: acc)
  case Nil
  show ?case by simp
next
  case (Cons x xs)
  obtain lat lon where x: "x = (lat, lon)" by (cases x)
  show ?case by (simp add: Cons.IH x)
qed

lemma rotate_coordinates_eq:
  "rotate_coordinates coordinates angle (center_lat, center_lon) =
     map (\<lambda>(lat, lon).
            ((lat - center_lat) * cos (radians angle) - (lon - center_lon) * sin (radians angle)
               + center_lat,
             (lat - center_lat) * sin (radians angle) + (lon - center_lon) * cos (radians angle)
               + center_lon))
         coordinates"
  by (simp add: rotate_coordinates_def Let_def rotate_loop)

lemma flatten_points_eq:
  "flatten_points ps data =
     data @ concat (map (\<lambda>p. case time p of Some t \<Rightarrow> [(latitude p, longitude p, t)] | None \<Rightarrow> []) ps)"
  unfolding flatten_points_def
  by (induction ps arbitrary: data) (auto split: option.splits)

lemma flatten_segments_eq:
  "flatten_segments ss data =
     data @ concat (map (\<lambda>s. concat (map (\<lambda>p. case time p of
                                  Some t \<Rightarrow> [(latitude p, longitude p, t)] | None \<Rightarrow> []) (points s))) ss)"
  unfolding flatten_segments_def
  by (induction ss arbitrary: data) (auto simp: flatten_points_eq)

lemma flatten_tracks_eq:
  "flatten_tracks ts data =
     data @ concat (map (\<lambda>t. concat (map (\<lambda>s. concat (map (\<lambda>p. case time p of
                 Some t \<Rightarrow> [(latitude p, longitude p, t)] | None \<Rightarrow> []) (points s))) (segments t))) ts)"
  unfolding flatten_tracks_def
  by (induction ts arbitrary: data) (auto simp: flatten_segments_eq)

lemma path_center_eq:
  assumes "coordinates \<noteq> []"
  shows "path_center coordinates =
     Inr ((Max (fst ` set coordinates) + Min (fst ` set coordinates)) / 2,
          (Max (snd ` set coordinates) + Min (snd ` set coordinates)) / 2)"
  using assms by (simp add: path_center_def max_of_Max min_of_Min)

lemma zoomed_bounds_eq:
  assumes "rotated \<noteq> []" and "zoom \<noteq> 0"
  shows "zoomed_bounds rotated (center_lat, center_lon) zoom =
     Inr ((center_lat - (Max (fst ` set rotated) - Min (fst ` set rotated)) / zoom / 2,
           center_lat + (Max (fst ` set rotated) - Min (fst ` set rotated)) / zoom / 2),
          (center_lon - (Max (snd ` set rotated) - Min (snd ` set rotated)) / zoom / 2,
           center_lon + (Max (snd ` set rotated) - Min (snd ` set rotated)) / zoom / 2))"
  using assms by (simp add: zoomed_bounds_def max_of_Max min_of_Min true_div_def)

section \<open>Rotation\<close>

lemma radians_minus: "radians (- angle) = - radians angle"
  by (simp add: radians_def)

lemma rotate_back:
  fixes c s :: real
  assumes "c\<^sup>2 + s\<^sup>2 = 1"
  shows "((lat - a) * c - (lon - b) * s + a - a) * c - ((lat - a) * s + (lon - b) * c + b - b) * (- s) + a = lat"
    and "((lat - a) * c - (lon - b) * s + a - a) * (- s) + ((lat - a) * s + (lon - b) * c + b - b) * c + b = lon"
proof -
  have "((lat - a) * c - (lon - b) * s + a - a) * c - ((lat - a) * s + (lon - b) * c + b - b) * (- s) + a
        = (lat - a) * (c\<^sup>2 + s\<^sup>2) + a"
    by (simp add: algebra_simps power2_eq_square)
  then show "((lat - a) * c - (lon - b) * s + a - a) * c - ((lat - a) * s + (lon - b) * c + b - b) * (- s) + a = lat"
    using assms by simp
  have "((lat - a) * c - (lon - b) * s + a - a) * (- s) + ((lat - a) * s + (lon - b) * c + b - b) * c + b
        = (lon - b) * (c\<^sup>2 + s\<^sup>2) + b"
    by (simp add: algebra_simps power2_eq_square)
  then show "((lat - a) * c - (lon - b) * s + a - a) * (- s) + ((lat - a) * s + (lon - b) * c + b - b) * c + b = lon"
    using assms by simp
qed

text \<open>
  Claim C10. \<^verbatim>\<open>rotate_coordinates\<close> is a pointwise map: its result has the length and
  the order of its input, and the i-th output is a function of the i-th input, the angle
  and the center alone. The function is total: no input list makes it raise.
\<close>

theorem rotate_coordinates_pointwise:
  "rotate_coordinates coordinates angle (center_lat, center_lon) =
     map (\<lambda>(lat, lon).
            ((lat - center_lat) * cos (radians angle) - (lon - center_lon) * sin (radians angle)
               + center_lat,
             (lat - center_lat) * sin (radians angle) + (lon - center_lon) * cos (radians angle)
               + center_lon))
         coordinates
   \<and> length (rotate_coordinates coordinates angle (center_lat, center_lon)) = length coordinates"
  by (simp add: rotate_coordinates_eq)

text \<open>
  Claim C8. Rotating by \<open>theta\<close> and then by \<open>- theta\<close> about the same center gives
  back the original coordinate list, in exact real arithmetic.
\<close>

theorem rotate_coordinates_round_trip:
  "rotate_coordinates (rotate_coordinates coordinates theta center) (- theta) center = coordinates"
proof -
  obtain a b where center: "center = (a, b)" by (cases center)
  have unit: "(cos (radians theta))\<^sup>2 + (sin (radians theta))\<^sup>2 = 1"
    by (simp add: sin_cos_squared_add2)
  have "map ((\<lambda>(lat, lon).
            ((lat - a) * cos (radians theta) - (lon - b) * (- sin (radians theta)) + a,
             (lat - a) * (- sin (radians theta)) + (lon - b) * cos (radians theta) + b)) \<circ>
          (\<lambda>(lat, lon).
            ((lat - a) * cos (radians theta) - (lon - b) * sin (radians theta) + a,
             (lat - a) * sin (radians theta) + (lon - b) * cos (radians theta) + b)))
        coordinates = map id coordinates"
  proof (rule map_cong [OF refl])
    fix p assume "p \<in> set coordinates"
    obtain lat lon where p: "p = (lat, lon)" by (cases p)
    show "((\<lambda>(lat, lon).
            ((lat - a) * cos (radians theta) - (lon - b) * (- sin (radians theta)) + a,
             (lat - a) * (- sin (radians theta)) + (lon - b) * cos (radians theta) + b)) \<circ>
          (\<lambda>(lat, lon).
            ((lat - a) * cos (radians theta) - (lon - b) * sin (radians theta) + a,
             (lat - a) * sin (radians theta) + (lon - b) * cos (radians theta) + b))) p = id p"
      using rotate_back [OF unit, of lat a lon b] by (simp add: p)
  qed
  then show ?thesis
    by (simp add: center rotate_coordinates_eq radians_minus)
qed

section \<open>The time filter\<close>



section \<open>The loader\<close>

text \<open>
  Claim C6. For a file that exists and that the library parses, the loader returns the
  points of all tracks in file order, tracks outermost, then segments, then points, and
  a point without a time contributes nothing and is no error.
\<close>

theorem parse_gpx_flattens:
  assumes "fs file_path = Some gpx_file" and "parse gpx_file = Inr g"
  shows "parse_gpx fs parse file_path =
    Inr (concat (map (\<lambda>t.
           concat (map (\<lambda>s.
             concat (map (\<lambda>p. case time p of
                                 Some tm \<Rightarrow> [(latitude p, longitude p, tm)]
                               | None \<Rightarrow> [])
                         (points s)))
                  (segments t)))
         (tracks g)))"
  using assms by (simp add: parse_gpx_def flatten_tracks_eq)

theorem parse_gpx_flattens_witness:
  "[''run.gpx'' \<mapsto> ''<gpx/>''] ''run.gpx'' = Some ''<gpx/>'' \<and>
   parse_gpx [''run.gpx'' \<mapsto> ''<gpx/>'']
     (\<lambda>content. Inr \<lparr>tracks =
        [\<lparr>segments = [\<lparr>points = [\<lparr>latitude = 1, longitude = 2,
                                     time = Some \<lparr>year = 2024, month = 5, day = 4, hour = 8, minute = 0, second = 0\<rparr>\<rparr>,
                                   \<lparr>latitude = 3, longitude = 4, time = None\<rparr>]\<rparr>,
                       \<lparr>points = []\<rparr>]\<rparr>,
         \<lparr>segments = [\<lparr>points = [\<lparr>latitude = 5, longitude = 6,
                                     time = Some \<lparr>year = 2024, month = 5, day = 4, hour = 9, minute = 30, second = 0\<rparr>\<rparr>]\<rparr>]\<rparr>]\<rparr>)
     ''run.gpx'' =
   Inr [(1, 2, \<lparr>year = 2024, month = 5, day = 4, hour = 8, minute = 0, second = 0\<rparr>),
        (5, 6, \<lparr>year = 2024, month = 5, day = 4, hour = 9, minute = 30, second = 0\<rparr>)]"
  using parse_gpx_flattens
    [of "[''run.gpx'' \<mapsto> ''<gpx/>'']" "''run.gpx''" "''<gpx/>''"
        "\<lambda>content. Inr \<lparr>tracks =
        [\<lparr>segments = [\<lparr>points = [\<lparr>latitude = 1, longitude = 2,
                                     time = Some \<lparr>year = 2024, month = 5, day = 4, hour = 8, minute = 0, second = 0\<rparr>\<rparr>,
                                   \<lparr>latitude = 3, longitude = 4, time = None\<rparr>]\<rparr>,
                       \<lparr>points = []\<rparr>]\<rparr>,
         \<lparr>segments = [\<lparr>points = [\<lparr>latitude = 5, longitude = 6,
                                     time = Some \<lparr>year = 2024, month = 5, day = 4, hour = 9, minute = 30, second = 0\<rparr>\<rparr>]\<rparr>]\<rparr>]\<rparr>"]
  by simp

text \<open>
  Claim C7. If the path does not exist, or the library rejects the content, the loader
  ends with that exception and returns no sample sequence, not even a partial one.
\<close>

theorem parse_gpx_fails_whole:
  "(fs file_path = None \<longrightarrow> parse_gpx fs parse file_path = Inl FileNotFoundError)
   \<and> (fs file_path = Some gpx_file \<and> parse gpx_file = Inl e \<longrightarrow>
        parse_gpx fs parse file_path = Inl e)
   \<and> ((fs file_path = None \<or> (fs file_path = Some gpx_file \<and> parse gpx_file = Inl e)) \<longrightarrow>
        (\<forall>data. parse_gpx fs parse file_path \<noteq> Inr data))"
  by (auto simp: parse_gpx_def)

theorem parse_gpx_fails_whole_witness:
  "Map.empty ''missing.gpx'' = (None :: string option)
   \<and> parse_gpx Map.empty (\<lambda>content. Inl GPXException) ''missing.gpx'' = Inl FileNotFoundError
   \<and> [''bad.gpx'' \<mapsto> ''not xml''] ''bad.gpx'' = Some ''not xml''
   \<and> parse_gpx [''bad.gpx'' \<mapsto> ''not xml''] (\<lambda>content. Inl GPXException) ''bad.gpx'' = Inl GPXException"
  using parse_gpx_fails_whole [of Map.empty "''missing.gpx''" "\<lambda>content. Inl GPXException" "''x''" GPXException]
        parse_gpx_fails_whole [of "[''bad.gpx'' \<mapsto> ''not xml'']" "''bad.gpx''" "\<lambda>content. Inl GPXException" "''not xml''" GPXException]
  by simp

section \<open>Center, rotation and bounds of the plotted path\<close>

lemma rotate_coordinates_nonempty:
  "coordinates \<noteq> [] \<Longrightarrow> rotate_coordinates coordinates angle center \<noteq> []"
  by (cases center) (simp add: rotate_coordinates_eq)

lemma plot_path_eq:
  assumes "coordinates \<noteq> []" and "zoom \<noteq> 0"
    and "center_lat = (Max (fst ` set coordinates) + Min (fst ` set coordinates)) / 2"
    and "center_lon = (Max (snd ` set coordinates) + Min (snd ` set coordinates)) / 2"
    and "rotated = rotate_coordinates coordinates rotation (center_lat, center_lon)"
  shows "plot_path coordinates zoom rotation =
     Inr (Show_figure
       \<lparr>path_x = map snd rotated,
        path_y = map fst rotated,
        xlim = (center_lon - (Max (snd ` set rotated) - Min (snd ` set rotated)) / zoom / 2,
                center_lon + (Max (snd ` set rotated) - Min (snd ` set rotated)) / zoom / 2),
        ylim = (center_lat - (Max (fst ` set rotated) - Min (fst ` set rotated)) / zoom / 2,
                center_lat + (Max (fst ` set rotated) - Min (fst ` set rotated)) / zoom / 2),
        title_zoom = zoom,
        title_rotation = rotation\<rparr>)"
proof -
  have ne: "rotated \<noteq> []"
    using assms(1,5) by (simp add: rotate_coordinates_nonempty)
  have c: "path_center coordinates = Inr (center_lat, center_lon)"
    using assms(1,3,4) by (simp add: path_center_eq)
  have b: "zoomed_bounds (rotate_coordinates coordinates rotation (center_lat, center_lon))
             (center_lat, center_lon) zoom =
     Inr ((center_lat - (Max (fst ` set rotated) - Min (fst ` set rotated)) / zoom / 2,
           center_lat + (Max (fst ` set rotated) - Min (fst ` set rotated)) / zoom / 2),
          (center_lon - (Max (snd ` set rotated) - Min (snd ` set rotated)) / zoom / 2,
           center_lon + (Max (snd ` set rotated) - Min (snd ` set rotated)) / zoom / 2))"
    using zoomed_bounds_eq [OF ne assms(2)] assms(5) by simp
  show ?thesis
    using assms(1) by (simp add: plot_path_def c b Let_def assms(5))
qed

text \<open>
  Claim C9. A single point is its own center, the rotation about it by any angle leaves it
  where it is, and so the plotted path is that point.
\<close>

theorem single_point_unmoved:
  "path_center [(lat, lon)] = Inr (lat, lon)
   \<and> rotate_coordinates [(lat, lon)] rotation (lat, lon) = [(lat, lon)]
   \<and> (zoom \<noteq> 0 \<longrightarrow>
        plot_path [(lat, lon)] zoom rotation =
          Inr (Show_figure \<lparr>path_x = [lon], path_y = [lat], xlim = (lon, lon), ylim = (lat, lat),
                            title_zoom = zoom, title_rotation = rotation\<rparr>))"
proof -
  have c: "path_center [(lat, lon)] = Inr (lat, lon)"
    by (simp add: path_center_def)
  have r: "rotate_coordinates [(lat, lon)] rotation (lat, lon) = [(lat, lon)]"
    by (simp add: rotate_coordinates_eq)
  have "plot_path [(lat, lon)] zoom rotation =
          Inr (Show_figure \<lparr>path_x = [lon], path_y = [lat], xlim = (lon, lon), ylim = (lat, lat),
                            title_zoom = zoom, title_rotation = rotation\<rparr>)" if "zoom \<noteq> 0"
    using that by (simp add: plot_path_def c r zoomed_bounds_def true_div_def)
  with c r show ?thesis by simp
qed

theorem single_point_unmoved_witness:
  "(2::real) \<noteq> 0 \<and>
   plot_path [(48, 11)] 2 30 =
     Inr (Show_figure \<lparr>path_x = [11], path_y = [48], xlim = (11, 11), ylim = (48, 48),
                       title_zoom = 2, title_rotation = 30\<rparr>)"
  using single_point_unmoved [of 48 11 30 2] by simp

lemma rotated_latitudes:
  "map fst (rotate_coordinates coordinates angle (center_lat, center_lon)) =
     map (\<lambda>(lat, lon). (lat - center_lat) * cos (radians angle)
                          - (lon - center_lon) * sin (radians angle) + center_lat) coordinates"
  by (auto simp: rotate_coordinates_eq)

lemma rotated_longitudes:
  "map snd (rotate_coordinates coordinates angle (center_lat, center_lon)) =
     map (\<lambda>(lat, lon). (lat - center_lat) * sin (radians angle)
                          + (lon - center_lon) * cos (radians angle) + center_lon) coordinates"
  by (auto simp: rotate_coordinates_eq)

text \<open>
  Claim C4. For a non-empty coordinate list the center is the midpoint of the bounding box,
  \<open>((max_lat + min_lat) / 2, (max_lon + min_lon) / 2)\<close>, and every plotted point is the
  input point translated by minus the center, rotated counter-clockwise by the angle
  converted from degrees to radians, and translated back.
\<close>

theorem center_and_rotation:
  assumes "coordinates \<noteq> []" and "zoom \<noteq> 0"
  shows "let center_lat = (Max (fst ` set coordinates) + Min (fst ` set coordinates)) / 2;
             center_lon = (Max (snd ` set coordinates) + Min (snd ` set coordinates)) / 2;
             theta = rotation_degrees * pi / 180
         in path_center coordinates = Inr (center_lat, center_lon) \<and>
            (\<exists>fig. plot_path coordinates zoom rotation_degrees = Inr (Show_figure fig) \<and>
               path_y fig =
                 map (\<lambda>(lat, lon). (lat - center_lat) * cos theta
                                      - (lon - center_lon) * sin theta + center_lat) coordinates \<and>
               path_x fig =
                 map (\<lambda>(lat, lon). (lat - center_lat) * sin theta
                                      + (lon - center_lon) * cos theta + center_lon) coordinates)"
proof -
  define center_lat where "center_lat = (Max (fst ` set coordinates) + Min (fst ` set coordinates)) / 2"
  define center_lon where "center_lon = (Max (snd ` set coordinates) + Min (snd ` set coordinates)) / 2"
  define rotated where "rotated = rotate_coordinates coordinates rotation_degrees (center_lat, center_lon)"
  have c: "path_center coordinates = Inr (center_lat, center_lon)"
    using assms(1) by (simp add: path_center_eq center_lat_def center_lon_def)
  obtain fig where fig: "plot_path coordinates zoom rotation_degrees = Inr (Show_figure fig)"
    and x: "path_x fig = map snd rotated" and y: "path_y fig = map fst rotated"
    using plot_path_eq [OF assms center_lat_def center_lon_def rotated_def] by simp
  have "path_y fig =
          map (\<lambda>(lat, lon). (lat - center_lat) * cos (rotation_degrees * pi / 180)
                - (lon - center_lon) * sin (rotation_degrees * pi / 180) + center_lat) coordinates"
    unfolding y rotated_def rotated_latitudes radians_def ..
  moreover have "path_x fig =
          map (\<lambda>(lat, lon). (lat - center_lat) * sin (rotation_degrees * pi / 180)
                + (lon - center_lon) * cos (rotation_degrees * pi / 180) + center_lon) coordinates"
    unfolding x rotated_def rotated_longitudes radians_def ..
  ultimately show ?thesis
    using c fig unfolding Let_def center_lat_def [symmetric] center_lon_def [symmetric] by blast
qed

text \<open>The scenario of the two points (0, 0) and (1, 1) turned by 180 degrees: they swap.\<close>

theorem center_and_rotation_witness:
  "[(0, 0), (1, 1)] \<noteq> ([] :: coordinate list) \<and> (1::real) \<noteq> 0 \<and>
   path_center [(0, 0), (1, 1)] = Inr (1 / 2, 1 / 2) \<and>
   (\<exists>fig. plot_path [(0, 0), (1, 1)] 1 180 = Inr (Show_figure fig) \<and>
          path_y fig = [1, 0] \<and> path_x fig = [1, 0])"
  using center_and_rotation [of "[(0, 0), (1, 1)]" 1 180] by (simp add: Let_def)





section \<open>The callback\<close>

lemma update_plot_eq:
  "update_plot data zoom_value rotation_value start_time end_time st =
     and_then (plot_path (filter_coordinates_by_time data start_time end_time) zoom_value rotation_value)
       (\<lambda>eff. Inr (st\<lparr>filtered_coordinates := filter_coordinates_by_time data start_time end_time,
                       trace := trace st @ [eff]\<rparr>))"
  by (simp add: update_plot_def)

text \<open>
  Claim C5. When the time filter keeps nothing, \<^verbatim>\<open>plot_path\<close> prints its message and
  returns before any center, rotation or bound is computed (so for every zoom, zero
  included); the callback records the message, shows no figure, and the figures shown
  before are what they were.
\<close>

theorem empty_view_not_rendered:
  assumes "filter_coordinates_by_time data start_time end_time = []"
  shows "plot_path [] zoom rotation = Inr (Print ''No coordinates to plot.'')
    \<and> update_plot data zoom rotation start_time end_time st =
        Inr (st\<lparr>filtered_coordinates := [], trace := trace st @ [Print ''No coordinates to plot.'']\<rparr>)
    \<and> shown_figures (trace st @ [Print ''No coordinates to plot.'']) = shown_figures (trace st)"
  using assms by (simp add: update_plot_eq plot_path_def shown_figures_def)

theorem empty_view_not_rendered_witness:
  "filter_coordinates_by_time
     [(0, 0, \<lparr>year = 2024, month = 5, day = 4, hour = 8, minute = 0, second = 0\<rparr>)]
     ''18:00'' ''06:00'' = []
   \<and> update_plot
       [(0, 0, \<lparr>year = 2024, month = 5, day = 4, hour = 8, minute = 0, second = 0\<rparr>)]
       1 0 ''18:00'' ''06:00''
       \<lparr>filtered_coordinates = [(0, 0)],
        trace = [Show_figure \<lparr>path_x = [0], path_y = [0], xlim = (0, 0), ylim = (0, 0),
                              title_zoom = 1, title_rotation = 0\<rparr>]\<rparr>
     = Inr \<lparr>filtered_coordinates = [],
            trace = [Show_figure \<lparr>path_x = [0], path_y = [0], xlim = (0, 0), ylim = (0, 0),
                                  title_zoom = 1, title_rotation = 0\<rparr>,
                     Print ''No coordinates to plot.'']\<rparr>"
proof -
  have t8: "strftime_HM \<lparr>year = 2024, month = 5, day = 4, hour = 8, minute = 0, second = 0\<rparr> = ''08:00''"
    by code_simp
  have e: "filter_coordinates_by_time
     [(0, 0, \<lparr>year = 2024, month = 5, day = 4, hour = 8, minute = 0, second = 0\<rparr>)]
     ''18:00'' ''06:00'' = []"
    by (simp add: filter_coordinates_by_time_eq t8)
  show ?thesis
    using e empty_view_not_rendered [OF e, of 1 0
       "\<lparr>filtered_coordinates = [(0, 0)],
        trace = [Show_figure \<lparr>path_x = [0], path_y = [0], xlim = (0, 0), ylim = (0, 0),
                              title_zoom = 1, title_rotation = 0\<rparr>]\<rparr>"]
    by simp
qed

text \<open>
  Claim C1 at the time strings \<^verbatim>\<open>""\<close> and \<^verbatim>\<open>"noon"\<close>, neither of the form
  \<^verbatim>\<open>HH:MM\<close>: the strings are only compared, nothing raises \<^verbatim>\<open>ValueError\<close>, the
  handler's message is not printed, the sample at 08:00 passes the filter and a new figure
  is shown.
\<close>

theorem malformed_times_are_rendered:
  "update_plot
     [(0, 0, \<lparr>year = 2024, month = 5, day = 4, hour = 8, minute = 0, second = 0\<rparr>)]
     1 0 '''' ''noon''
     \<lparr>filtered_coordinates = [], trace = []\<rparr>
   = Inr \<lparr>filtered_coordinates = [(0, 0)],
          trace = [Show_figure \<lparr>path_x = [0], path_y = [0], xlim = (0, 0), ylim = (0, 0),
                                title_zoom = 1, title_rotation = 0\<rparr>]\<rparr>"
proof -
  have t8: "strftime_HM \<lparr>year = 2024, month = 5, day = 4, hour = 8, minute = 0, second = 0\<rparr> = ''08:00''"
    by code_simp
  have f: "filter_coordinates_by_time
     [(0, 0, \<lparr>year = 2024, month = 5, day = 4, hour = 8, minute = 0, second = 0\<rparr>)]
     '''' ''noon'' = [(0, 0)]"
    by (simp add: filter_coordinates_by_time_eq t8)
  have p: "plot_path [(0, 0)] 1 0 =
     Inr (Show_figure \<lparr>path_x = [0], path_y = [0], xlim = (0, 0), ylim = (0, 0),
                                title_zoom = 1, title_rotation = 0\<rparr>)"
    by (simp add: plot_path_def path_center_def zoomed_bounds_def true_div_def
        rotate_coordinates_eq radians_def)
  show ?thesis
    by (simp add: update_plot_eq f p)
qed

end
